theory Spec2Isabelle
  imports Complex_Main "HOL-Library.Word" "HOL-Library.Char_ord" "HOL-Library.List_Lexorder"
begin

section \<open>Python values, exceptions and string helpers\<close>

text \<open>
  The evaluators of \<^verbatim>\<open>detectron2/evaluation/cityscapes_evaluation.py\<close> and the factory of
  \<^verbatim>\<open>detectron2/modeling/extra_neck/build.py\<close> are embedded as HOL functions. A Python
  exception is a value of \<open>py_error\<close>; a computation that may raise returns
  \<open>py_error + 'a\<close> with \<open>Inl\<close> for the exception. Paths and file names are ASCII
  strings; Python floats are modelled by \<open>real\<close>.
\<close>

datatype py_error =
    AssertionError
  | IndexError
  | KeyError string
  | UnboundLocalError
  | ValueError
  | ZeroDivisionError
  | ExternalError string

text \<open>Sequencing of computations that may raise: the first exception wins.\<close>

definition and_then :: "py_error + 'a \<Rightarrow> ('a \<Rightarrow> py_error + 'b) \<Rightarrow> py_error + 'b" where
  "and_then m f = (case m of Inl e \<Rightarrow> Inl e | Inr x \<Rightarrow> f x)"

text \<open>\<^verbatim>\<open>d[k]\<close> on a dictionary: \<^verbatim>\<open>KeyError\<close> for a missing key.\<close>

definition getitem :: "(string \<rightharpoonup> 'v) \<Rightarrow> string \<Rightarrow> py_error + 'v" where
  "getitem d k = (case d k of None \<Rightarrow> Inl (KeyError k) | Some v \<Rightarrow> Inr v)"

text \<open>\<^verbatim>\<open>xs[i]\<close> on a list: an index below zero counts from the end.\<close>

definition list_getitem :: "'a list \<Rightarrow> int \<Rightarrow> py_error + 'a" where
  "list_getitem xs i =
     (if 0 \<le> i \<and> i < int (length xs) then Inr (xs ! nat i)
      else if i < 0 \<and> - i \<le> int (length xs) then Inr (xs ! nat (int (length xs) + i))
      else Inl IndexError)"

text \<open>
  \<^verbatim>\<open>s.split(c)\<close> for a one-character separator. The result is never empty, so the
  first branch of the \<open>case\<close> is not reached.
\<close>

fun split :: "char \<Rightarrow> string \<Rightarrow> string list" where
  "split c [] = [[]]"
| "split c (x # xs) =
     (if x = c then [] # split c xs
      else (case split c xs of [] \<Rightarrow> [[x]] | part # parts \<Rightarrow> (x # part) # parts))"

text \<open>\<^verbatim>\<open>s.endswith(sfx)\<close>.\<close>

definition endswith :: "string \<Rightarrow> string \<Rightarrow> bool" where
  "endswith s sfx = (length sfx \<le> length s \<and> drop (length s - length sfx) s = sfx)"

text \<open>\<^verbatim>\<open>os.path.basename\<close> (POSIX): everything after the last slash.\<close>

definition os_path_basename :: "string \<Rightarrow> string" where
  "os_path_basename p = last (split (CHR ''/'') p)"

text \<open>
  \<^verbatim>\<open>os.path.splitext(p)[0]\<close> (POSIX) on a name without a slash: the name up to its last
  dot, unless only dots precede that dot.
\<close>

definition splitext_root :: "string \<Rightarrow> string" where
  "splitext_root b =
     (let stem = rev (tl (dropWhile (\<lambda>c. c \<noteq> CHR ''.'') (rev b)))
      in if CHR ''.'' \<in> set b \<and> dropWhile (\<lambda>c. c = CHR ''.'') stem \<noteq> [] then stem else b)"

text \<open>\<^verbatim>\<open>os.path.join(a, b)\<close> (POSIX, two arguments).\<close>

definition os_path_join :: "string \<Rightarrow> string \<Rightarrow> string" where
  "os_path_join a b =
     (if b \<noteq> [] \<and> hd b = CHR ''/'' then b
      else if a = [] \<or> last a = CHR ''/'' then a @ b
      else a @ ''/'' @ b)"

text \<open>
  \<^verbatim>\<open>int(s)\<close> on an ASCII string: surrounding white space is stripped, one sign is
  allowed, and the body is a non-empty run of decimal digits in which single underscores
  may separate digits. Anything else raises \<^verbatim>\<open>ValueError\<close>.
\<close>

definition is_space :: "char \<Rightarrow> bool" where
  "is_space c = (let n = (of_char c :: nat) in (9 \<le> n \<and> n \<le> 13) \<or> (28 \<le> n \<and> n \<le> 32))"

definition is_digit :: "char \<Rightarrow> bool" where
  "is_digit c = (let n = (of_char c :: nat) in 48 \<le> n \<and> n \<le> 57)"

definition strip :: "string \<Rightarrow> string" where
  "strip s = rev (dropWhile is_space (rev (dropWhile is_space s)))"

fun int_body :: "string \<Rightarrow> bool" where
  "int_body [] = False"
| "int_body [c] = is_digit c"
| "int_body (c # d # r) =
     (is_digit c \<and> (if d = CHR ''_'' then int_body r else int_body (d # r)))"

definition digits_value :: "string \<Rightarrow> int" where
  "digits_value s =
     foldl (\<lambda>a c. 10 * a + (int (of_char c) - 48)) 0 (filter (\<lambda>c. c \<noteq> CHR ''_'') s)"

definition py_int :: "string \<Rightarrow> py_error + int" where
  "py_int s =
     (case strip s of
        [] \<Rightarrow> Inl ValueError
      | c # r \<Rightarrow>
          if c = CHR ''-'' then (if int_body r then Inr (- digits_value r) else Inl ValueError)
          else if c = CHR ''+'' then (if int_body r then Inr (digits_value r) else Inl ValueError)
          else if int_body (c # r) then Inr (digits_value (c # r))
          else Inl ValueError)"

text \<open>\<^verbatim>\<open>str(n)\<close> for a non-negative integer.\<close>

function str_nat :: "nat \<Rightarrow> string" where
  "str_nat n =
     (if n < 10 then [char_of (48 + n)]
      else str_nat (n div 10) @ [char_of (48 + n mod 10)])"
  by pat_completeness auto
termination
  by (relation "measure (\<lambda>n. n)") auto

section \<open>Ground-truth enumeration and temporal subsampling\<close>

text \<open>
  \<open>listing\<close> stands for the file system below the ground-truth directory: the paths
  \<^verbatim>\<open>gt_dir/*/*\<close> that exist, in the order the operating system reports them.
  \<^verbatim>\<open>glob.glob(os.path.join(gt_dir, "*", "*" + sfx))\<close> keeps the paths whose last component
  ends with \<open>sfx\<close> and is not hidden (a leading dot is never matched by \<^verbatim>\<open>*\<close>).
\<close>

definition glob :: "string list \<Rightarrow> string \<Rightarrow> string list" where
  "glob listing sfx =
     filter (\<lambda>p. let b = os_path_basename p
                 in endswith b sfx \<and> \<not> (b \<noteq> [] \<and> hd b = CHR ''.'')) listing"

text \<open>
  \<^verbatim>\<open>int(p.split('/')[-1].split('_')[-1].split('.')[0])\<close>: the frame index of a
  ground-truth file.
\<close>

definition frame_index :: "string \<Rightarrow> py_error + int" where
  "frame_index p =
     py_int (hd (split (CHR ''.'') (last (split (CHR ''_'') (last (split (CHR ''/'') p))))))"

text \<open>
  The loop of lines 251--255. \<open>tmp\<close> is the local \<^verbatim>\<open>groundTruthImgList_tmp\<close>:
  \<open>None\<close> while the name is unbound. The source parses the frame index of a file twice
  (once for each comparison); both calls read the same string, so the model parses once.
\<close>

fun subsample ::
  "int \<Rightarrow> int \<Rightarrow> int \<Rightarrow> string list \<Rightarrow> string list option \<Rightarrow> py_error + string list option"
where
  "subsample inf_start skip_interv start_idx [] tmp = Inr tmp"
| "subsample inf_start skip_interv start_idx (g # gs) tmp =
     (case frame_index g of
        Inl e \<Rightarrow> Inl e
      | Inr i \<Rightarrow>
          if i > inf_start then
            (if skip_interv = 0 then Inl ZeroDivisionError
             else if i mod skip_interv = start_idx then
               (case tmp of
                  None \<Rightarrow> Inl UnboundLocalError
                | Some acc \<Rightarrow> subsample inf_start skip_interv start_idx gs (Some (acc @ [g])))
             else subsample inf_start skip_interv start_idx gs tmp)
          else subsample inf_start skip_interv start_idx gs tmp)"

section \<open>The scratch directory and the external scorer\<close>

text \<open>
  A mask or label image is a matrix of \<^verbatim>\<open>uint8\<close> pixels. A manifest is the list of the
  lines written to it; a line \<^verbatim>\<open>"{} {} {}\n"\<close> is kept as its three fields.
\<close>

type_synonym image = "8 word list list"

record manifest_line =
  mask_file :: string
  class_id :: int
  confidence :: real

datatype scratch_file = Png image | Text "manifest_line list"

text \<open>
  What an evaluator does besides computing: the barrier \<^verbatim>\<open>comm.synchronize()\<close>, the
  enumeration of the ground truth, the call of the external scorer and the removal of the
  scratch directory.
\<close>

datatype event = Barrier | Enumerate | Score | Cleanup

record evaluator =
  temp_dir :: string
  files :: "string \<rightharpoonup> scratch_file"
  trace :: "event list"

definition emit :: "event \<Rightarrow> evaluator \<Rightarrow> evaluator" where
  "emit e ev = ev\<lparr>trace := trace ev @ [e]\<rparr>"

text \<open>\<^verbatim>\<open>self._working_dir.cleanup()\<close>: the scratch directory and its files are removed.\<close>

definition working_dir_cleanup :: "evaluator \<Rightarrow> evaluator" where
  "working_dir_cleanup ev = emit Cleanup (ev\<lparr>files := Map.empty\<rparr>)"

text \<open>The fields of \<^verbatim>\<open>cityscapes_eval.args\<close> that the evaluators set.\<close>

record args =
  predictionPath :: string
  predictionWalk :: "string option"
  JSONOutput :: bool
  colorized :: bool
  gtInstancesFile :: "string option"
  span_window :: "nat option"

text \<open>A metrics mapping: an ordered dictionary of named groups of named scores.\<close>

type_synonym metrics = "(string \<times> (string \<times> real) list) list"

text \<open>\<^verbatim>\<open>ret[group][name]\<close>, read without raising.\<close>

definition metric :: "metrics \<Rightarrow> string \<Rightarrow> string \<Rightarrow> real option" where
  "metric ret grp name = (case map_of ret grp of None \<Rightarrow> None | Some d \<Rightarrow> map_of d name)"

text \<open>
  The loop \<^verbatim>\<open>for gt in groundTruthImgList: predictionImgList.append(getPrediction(..))\<close>;
  \<open>getPrediction\<close> belongs to the external scorer and may raise.
\<close>

fun prediction_list :: "(string \<Rightarrow> py_error + string) \<Rightarrow> string list \<Rightarrow> py_error + string list" where
  "prediction_list getPrediction [] = Inr []"
| "prediction_list getPrediction (gt # gts) =
     and_then (getPrediction gt) (\<lambda>p.
     and_then (prediction_list getPrediction gts) (\<lambda>ps. Inr (p # ps)))"

section \<open>The instance evaluator\<close>

record label =
  label_id :: int
  ignoreInEval :: bool

record detected_instance =
  pred_class :: int
  score :: real
  pred_mask :: "int list list"

text \<open>
  The body of \<^verbatim>\<open>for i in range(num_instances)\<close> (lines 71--82), from index \<open>i\<close> on.
  \<^verbatim>\<open>astype("uint8")\<close> is \<open>word_of_int\<close> and \<^verbatim>\<open>mask * 255\<close> is a product of bytes. The
  state is returned also when an exception leaves the loop.
\<close>

definition png_filename :: "string \<Rightarrow> string \<Rightarrow> nat \<Rightarrow> string \<Rightarrow> string" where
  "png_filename dir basename i classes =
     os_path_join dir (basename @ ''_'' @ str_nat i @ ''_'' @ classes @ ''.png'')"

fun write_instances ::
  "string list \<Rightarrow> (string \<rightharpoonup> label) \<Rightarrow> string \<Rightarrow> string \<Rightarrow> nat \<Rightarrow> detected_instance list \<Rightarrow>
   (string \<rightharpoonup> scratch_file) \<Rightarrow> manifest_line list \<Rightarrow>
   (py_error + unit) \<times> (string \<rightharpoonup> scratch_file) \<times> manifest_line list"
where
  "write_instances thing_classes name2label dir basename i [] fs fout = (Inr (), fs, fout)"
| "write_instances thing_classes name2label dir basename i (inst # rest) fs fout =
     (case and_then (list_getitem thing_classes (pred_class inst)) (\<lambda>classes.
           and_then (getitem name2label classes) (\<lambda>l. Inr (classes, label_id l))) of
        Inl e \<Rightarrow> (Inl e, fs, fout)
      | Inr (classes, cid) \<Rightarrow>
          let mask = map (map (\<lambda>v. word_of_int v :: 8 word)) (pred_mask inst);
              png = png_filename dir basename i classes;
              fs' = fs(png \<mapsto> Png (map (map (\<lambda>v. v * 255)) mask));
              fout' = fout @ [\<lparr>mask_file = os_path_basename png, class_id = cid,
                               confidence = score inst\<rparr>]
          in write_instances thing_classes name2label dir basename (Suc i) rest fs' fout')"

text \<open>
  One round of the outer loop of \<^verbatim>\<open>CityscapesInstanceEvaluator.process\<close>. The manifest is
  created when it is opened and holds the lines written so far when the \<^verbatim>\<open>with\<close> block
  is left, normally or by an exception.
\<close>

definition manifest_path :: "evaluator \<Rightarrow> string \<Rightarrow> string" where
  "manifest_path ev file_name =
     os_path_join (temp_dir ev) (splitext_root (os_path_basename file_name) @ ''_pred.txt'')"

definition instance_image ::
  "string list \<Rightarrow> (string \<rightharpoonup> label) \<Rightarrow> evaluator \<Rightarrow> string \<Rightarrow> detected_instance list \<Rightarrow>
   (py_error + unit) \<times> evaluator"
where
  "instance_image thing_classes name2label ev file_name output =
     (let basename = splitext_root (os_path_basename file_name);
          pred_txt = manifest_path ev file_name;
          opened = (files ev)(pred_txt \<mapsto> Text [])
      in case write_instances thing_classes name2label (temp_dir ev) basename 0 output opened [] of
           (r, fs, fout) \<Rightarrow> (r, ev\<lparr>files := fs(pred_txt \<mapsto> Text fout)\<rparr>))"

fun instance_images ::
  "string list \<Rightarrow> (string \<rightharpoonup> label) \<Rightarrow> (string \<times> detected_instance list) list \<Rightarrow> evaluator \<Rightarrow>
   (py_error + unit) \<times> evaluator"
where
  "instance_images thing_classes name2label [] ev = (Inr (), ev)"
| "instance_images thing_classes name2label ((file_name, output) # batch) ev =
     (case instance_image thing_classes name2label ev file_name output of
        (Inl e, ev') \<Rightarrow> (Inl e, ev')
      | (Inr u, ev') \<Rightarrow> instance_images thing_classes name2label batch ev')"

text \<open>
  \<^verbatim>\<open>CityscapesInstanceEvaluator.process\<close>: \<open>inputs\<close> are the \<^verbatim>\<open>file_name\<close> entries and
  \<open>outputs\<close> the \<^verbatim>\<open>instances\<close> entries, brought to the CPU.
\<close>

definition CityscapesInstanceEvaluator_process ::
  "string list \<Rightarrow> (string \<rightharpoonup> label) \<Rightarrow> string list \<Rightarrow> detected_instance list list \<Rightarrow> evaluator \<Rightarrow>
   (py_error + unit) \<times> evaluator"
where
  "CityscapesInstanceEvaluator_process thing_classes name2label inputs outputs ev =
     instance_images thing_classes name2label (zip inputs outputs) ev"

text \<open>
  \<^verbatim>\<open>CityscapesInstanceEvaluator.evaluate\<close>. \<open>rank\<close> is \<^verbatim>\<open>comm.get_rank()\<close>; the scorer's
  \<open>getPrediction\<close> and \<open>evaluateImgLists\<close> are parameters, the latter reading the scratch
  directory. \<open>None\<close> is the bare \<^verbatim>\<open>return\<close> of the other ranks.
\<close>

definition CityscapesInstanceEvaluator_evaluate ::
  "(string \<Rightarrow> args \<Rightarrow> py_error + string) \<Rightarrow>
   ((string \<rightharpoonup> scratch_file) \<Rightarrow> string list \<Rightarrow> string list \<Rightarrow> args \<Rightarrow>
      py_error + (string \<rightharpoonup> (string \<rightharpoonup> real))) \<Rightarrow>
   args \<Rightarrow> string list \<Rightarrow> nat \<Rightarrow> evaluator \<Rightarrow> (py_error + metrics option) \<times> evaluator"
where
  "CityscapesInstanceEvaluator_evaluate getPrediction evaluateImgLists args0 listing rank ev =
     (let ev1 = emit Barrier ev in
      if rank > 0 then (Inr None, ev1)
      else
        let a = args0\<lparr>predictionPath := temp_dir ev, predictionWalk := None,
                      JSONOutput := False, colorized := False,
                      gtInstancesFile := Some (os_path_join (temp_dir ev) ''gtInstances.json'')\<rparr>;
            groundTruthImgList = glob listing ''_gtFine_instanceIds.png'';
            ev2 = emit Enumerate ev1
        in if groundTruthImgList = [] then (Inl AssertionError, ev2)
           else
             (case prediction_list (\<lambda>gt. getPrediction gt a) groundTruthImgList of
                Inl e \<Rightarrow> (Inl e, ev2)
              | Inr predictionImgList \<Rightarrow>
                  let ev3 = emit Score ev2 in
                  (case and_then (evaluateImgLists (files ev) predictionImgList groundTruthImgList a)
                          (\<lambda>r. and_then (getitem r ''averages'') (\<lambda>results.
                               and_then (getitem results ''allAp'') (\<lambda>ap.
                               and_then (getitem results ''allAp50%'') (\<lambda>ap50.
                               Inr [(''segm'', [(''AP'', ap * 100), (''AP50'', ap50 * 100)])])))) of
                     Inl e \<Rightarrow> (Inl e, ev3)
                   | Inr ret \<Rightarrow> (Inr (Some ret), working_dir_cleanup ev3))))"

section \<open>The semantic evaluators\<close>

text \<open>
  \<^verbatim>\<open>pred[output == train_id] = v\<close>: every pixel whose predicted train-id is
  \<open>train_id\<close> is set to \<open>v\<close>; \<open>pred\<close> has the shape of \<open>output\<close>.
\<close>

definition assign_where :: "int list list \<Rightarrow> int \<Rightarrow> 8 word \<Rightarrow> image \<Rightarrow> image" where
  "assign_where output train_id v pred =
     map2 (\<lambda>orow prow. map2 (\<lambda>t p. if t = train_id then v else p) orow prow) output pred"

text \<open>
  The loop over \<^verbatim>\<open>trainId2label.items()\<close> (lines 145--148 and 212--215). The table is a
  dictionary, listed in its iteration order; storing \<^verbatim>\<open>label.id\<close> into the \<^verbatim>\<open>uint8\<close>
  array is \<open>word_of_int\<close>.
\<close>

fun relabel :: "(int \<times> label) list \<Rightarrow> int list list \<Rightarrow> image \<Rightarrow> image" where
  "relabel [] output pred = pred"
| "relabel ((train_id, l) # items) output pred =
     (if ignoreInEval l then relabel items output pred
      else relabel items output (assign_where output train_id (word_of_int (label_id l)) pred))"

text \<open>
  One round of the loop of \<^verbatim>\<open>process\<close>; \<open>output\<close> is the matrix of train-ids that
  \<^verbatim>\<open>output["sem_seg"].argmax(dim=0)\<close> gives.
\<close>

definition sem_seg_pred :: "(int \<times> label) list \<Rightarrow> int list list \<Rightarrow> image" where
  "sem_seg_pred trainId2label output =
     relabel trainId2label output (map (map (\<lambda>t. 255)) output)"

definition pred_filename :: "evaluator \<Rightarrow> string \<Rightarrow> string" where
  "pred_filename ev file_name =
     os_path_join (temp_dir ev) (splitext_root (os_path_basename file_name) @ ''_pred.png'')"

definition sem_seg_image ::
  "(int \<times> label) list \<Rightarrow> evaluator \<Rightarrow> string \<times> int list list \<Rightarrow> evaluator" where
  "sem_seg_image trainId2label ev io =
     ev\<lparr>files := (files ev)(pred_filename ev (fst io) \<mapsto> Png (sem_seg_pred trainId2label (snd io)))\<rparr>"

text \<open>
  \<^verbatim>\<open>CityscapesSemSegEvaluator.process\<close> and \<^verbatim>\<open>ViperCityscapesSemSegEvaluator.process\<close>
  have the same body; they differ in the label table they import, which is the first
  argument here.
\<close>

definition CityscapesSemSegEvaluator_process ::
  "(int \<times> label) list \<Rightarrow> string list \<Rightarrow> int list list list \<Rightarrow> evaluator \<Rightarrow> evaluator" where
  "CityscapesSemSegEvaluator_process trainId2label inputs outputs ev =
     foldl (sem_seg_image trainId2label) ev (zip inputs outputs)"

definition ViperCityscapesSemSegEvaluator_process ::
  "(int \<times> label) list \<Rightarrow> string list \<Rightarrow> int list list list \<Rightarrow> evaluator \<Rightarrow> evaluator" where
  "ViperCityscapesSemSegEvaluator_process trainId2label inputs outputs ev =
     foldl (sem_seg_image trainId2label) ev (zip inputs outputs)"

text \<open>\<^verbatim>\<open>CityscapesSemSegEvaluator.evaluate\<close>.\<close>

definition CityscapesSemSegEvaluator_evaluate ::
  "(args \<Rightarrow> string \<Rightarrow> py_error + string) \<Rightarrow>
   ((string \<rightharpoonup> scratch_file) \<Rightarrow> string list \<Rightarrow> string list \<Rightarrow> args \<Rightarrow>
      py_error + (string \<rightharpoonup> real)) \<Rightarrow>
   args \<Rightarrow> string list \<Rightarrow> nat \<Rightarrow> evaluator \<Rightarrow> (py_error + metrics option) \<times> evaluator"
where
  "CityscapesSemSegEvaluator_evaluate getPrediction evaluateImgLists args0 listing rank ev =
     (let ev1 = emit Barrier ev in
      if rank > 0 then (Inr None, ev1)
      else
        let a = args0\<lparr>predictionPath := temp_dir ev, predictionWalk := None,
                      JSONOutput := False, colorized := False\<rparr>;
            groundTruthImgList = glob listing ''_gtFine_labelIds.png'';
            ev2 = emit Enumerate ev1
        in if groundTruthImgList = [] then (Inl AssertionError, ev2)
           else
             (case prediction_list (getPrediction a) groundTruthImgList of
                Inl e \<Rightarrow> (Inl e, ev2)
              | Inr predictionImgList \<Rightarrow>
                  let ev3 = emit Score ev2 in
                  (case and_then (evaluateImgLists (files ev) predictionImgList groundTruthImgList a)
                          (\<lambda>results.
                             and_then (getitem results ''averageScoreClasses'') (\<lambda>r1.
                             and_then (getitem results ''averageScoreInstClasses'') (\<lambda>r2.
                             and_then (getitem results ''averageScoreCategories'') (\<lambda>r3.
                             and_then (getitem results ''averageScoreInstCategories'') (\<lambda>r4.
                             Inr [(''sem_seg'',
                                   [(''IoU'', 100 * r1), (''iIoU'', 100 * r2),
                                    (''IoU_sup'', 100 * r3), (''iIoU_sup'', 100 * r4)])]))))) of
                     Inl e \<Rightarrow> (Inl e, ev3)
                   | Inr ret \<Rightarrow> (Inr (Some ret), working_dir_cleanup ev3))))"

section \<open>The temporal evaluator\<close>

text \<open>The settings \<^verbatim>\<open>cfg.DATASETS.ROAD_SCENE\<close>, \<^verbatim>\<open>INF_START\<close> and \<^verbatim>\<open>SKIP_EVAL\<close>.\<close>

record datasets_cfg =
  dataset_type :: string
  inf_start :: int
  skip_interv :: int

text \<open>
  Lines 240--264 of \<^verbatim>\<open>ViperCityscapesSemSegEvaluator.evaluate\<close>: enumeration, the frame
  index of the first file (\<^verbatim>\<open>groundTruthImgList[0]\<close> raises on an empty list), the
  subsampling loop, the rebinding of the list and the assertion.
\<close>

definition viper_ground_truth :: "datasets_cfg \<Rightarrow> string list \<Rightarrow> py_error + string list" where
  "viper_ground_truth cfg listing =
     (let groundTruthImgList =
            (if dataset_type cfg = ''cityscapes'' then sort (glob listing ''_gtFine_labelIds.png'')
             else sort (glob listing []));
          groundTruthImgList_tmp =
            (if dataset_type cfg = ''cityscapes'' then None else Some [])
      in and_then (list_getitem groundTruthImgList 0) (\<lambda>first.
         and_then (frame_index first) (\<lambda>start_idx.
         and_then (subsample (inf_start cfg) (skip_interv cfg) start_idx groundTruthImgList
                     groundTruthImgList_tmp) (\<lambda>tmp.
         case tmp of
           None \<Rightarrow> Inl UnboundLocalError
         | Some kept \<Rightarrow> if kept = [] then Inl AssertionError else Inr kept))))"

text \<open>
  Lines 291--322: the metrics mapping built from the scorer's results. Each entry of the
  two derived groups reads back entries stored just before.
\<close>

definition viper_metrics :: "(string \<rightharpoonup> real) \<Rightarrow> py_error + metrics" where
  "viper_metrics results =
     and_then (getitem results ''averageScoreClasses'') (\<lambda>r1.
     and_then (getitem results ''averageScoreCategories'') (\<lambda>r2.
     and_then (getitem results ''averageScoreClasses_vid5'') (\<lambda>r3.
     and_then (getitem results ''averageScoreCategories_vid5'') (\<lambda>r4.
     and_then (getitem results ''averageScoreClasses_vid10'') (\<lambda>r5.
     and_then (getitem results ''averageScoreCategories_vid10'') (\<lambda>r6.
     and_then (getitem results ''averageScoreClasses_vid15'') (\<lambda>r7.
     and_then (getitem results ''averageScoreCategories_vid15'') (\<lambda>r8.
     let sem_seg =
           [(''IoU'', 100 * r1), (''IoU_sup'', 100 * r2),
            (''VIoU_5'', 100 * r3), (''VIoU_sup_5'', 100 * r4),
            (''VIoU_10'', 100 * r5), (''VIoU_sup_10'', 100 * r6),
            (''VIoU_15'', 100 * r7), (''VIoU_sup_15'', 100 * r8)]
     in
     and_then (getitem (map_of sem_seg) ''VIoU_5'') (\<lambda>v5.
     and_then (getitem (map_of sem_seg) ''VIoU_10'') (\<lambda>v10.
     and_then (getitem (map_of sem_seg) ''VIoU_15'') (\<lambda>v15.
     and_then (getitem (map_of sem_seg) ''VIoU_sup_5'') (\<lambda>s5.
     and_then (getitem (map_of sem_seg) ''VIoU_sup_10'') (\<lambda>s10.
     and_then (getitem (map_of sem_seg) ''VIoU_sup_15'') (\<lambda>s15.
     let sem_seg_Vid =
           [(''VIoU_total'', (v5 + v10 + v15) / 3),
            (''VIoU_sup_total'', (s5 + s10 + s15) / 3)]
     in
     and_then (getitem (map_of sem_seg_Vid) ''VIoU_total'') (\<lambda>vt.
     and_then (getitem (map_of sem_seg) ''IoU'') (\<lambda>iou.
     and_then (getitem (map_of sem_seg_Vid) ''VIoU_sup_total'') (\<lambda>st.
     and_then (getitem (map_of sem_seg) ''IoU_sup'') (\<lambda>iou_sup.
     Inr [(''sem_seg'', sem_seg),
          (''sem_seg_Vid'', sem_seg_Vid),
          (''sem_seg_ImgVid'',
           [(''ImgVid_IoU_Total'', (vt * 3 + iou) / 4),
            (''ImgVid_sup_IoU_Total'', (st * 3 + iou_sup) / 4)])]))))))))))))))))))"

text \<open>
  \<^verbatim>\<open>ViperCityscapesSemSegEvaluator.evaluate\<close>; \<open>evaluateImgLists_video\<close> is the
  scorer's video routine.
\<close>

definition ViperCityscapesSemSegEvaluator_evaluate ::
  "(args \<Rightarrow> string \<Rightarrow> py_error + string) \<Rightarrow>
   ((string \<rightharpoonup> scratch_file) \<Rightarrow> string list \<Rightarrow> string list \<Rightarrow> args \<Rightarrow>
      py_error + (string \<rightharpoonup> real)) \<Rightarrow>
   args \<Rightarrow> datasets_cfg \<Rightarrow> string list \<Rightarrow> nat \<Rightarrow> evaluator \<Rightarrow>
   (py_error + metrics option) \<times> evaluator"
where
  "ViperCityscapesSemSegEvaluator_evaluate getPrediction evaluateImgLists_video args0 cfg listing
       rank ev =
     (let ev1 = emit Barrier ev in
      if rank > 0 then (Inr None, ev1)
      else
        let a = args0\<lparr>predictionPath := temp_dir ev, predictionWalk := None,
                      JSONOutput := False, colorized := False, span_window := Some 5\<rparr>;
            ev2 = emit Enumerate ev1
        in (case viper_ground_truth cfg listing of
              Inl e \<Rightarrow> (Inl e, ev2)
            | Inr groundTruthImgList \<Rightarrow>
                (case prediction_list (getPrediction a) groundTruthImgList of
                   Inl e \<Rightarrow> (Inl e, ev2)
                 | Inr predictionImgList \<Rightarrow>
                     let ev3 = emit Score ev2 in
                     (case and_then (evaluateImgLists_video (files ev) predictionImgList
                                       groundTruthImgList a) viper_metrics of
                        Inl e \<Rightarrow> (Inl e, ev3)
                      | Inr ret \<Rightarrow> (Inr (Some ret), working_dir_cleanup ev3)))))"

section \<open>The model factory\<close>

text \<open>
  A model object: what the constructor built, the device it lives on and the checkpoint
  loaded into it, if any. \<^verbatim>\<open>model.to(device)\<close> moves the object and changes nothing else.
\<close>

record 'a module =
  built :: 'a
  device :: string
  loaded_weights :: "string option"

record model_cfg =
  EXTRA_NECK :: string
  DEVICE :: string
  WEIGHTS :: string

text \<open>
  Modelled from the spec: \<^verbatim>\<open>Registry.get\<close> of \<^verbatim>\<open>detectron2.utils.registry\<close>, which is
  not among the sources. The spec says that the lookup of a name absent from the registry
  fails with an unknown-key error; a registered name gives its constructor.
\<close>

definition Registry_get :: "(string \<rightharpoonup> 'c) \<Rightarrow> string \<Rightarrow> py_error + 'c" where
  "Registry_get registry name = (case registry name of None \<Rightarrow> Inl (KeyError name) | Some obj \<Rightarrow> Inr obj)"

text \<open>
  \<^verbatim>\<open>build_model\<close>. The second component lists the constructors that were called; a
  constructor may raise.
\<close>

definition build_model ::
  "(string \<rightharpoonup> (model_cfg \<Rightarrow> py_error + 'a module)) \<Rightarrow> model_cfg \<Rightarrow>
   (py_error + 'a module) \<times> string list"
where
  "build_model EXTRA_NECK_REGISTRY cfg =
     (let meta_arch = EXTRA_NECK cfg in
      case Registry_get EXTRA_NECK_REGISTRY meta_arch of
        Inl e \<Rightarrow> (Inl e, [])
      | Inr ctor \<Rightarrow>
          (case ctor cfg of
             Inl e \<Rightarrow> (Inl e, [meta_arch])
           | Inr model \<Rightarrow> (Inr (model\<lparr>device := DEVICE cfg\<rparr>), [meta_arch])))"

section \<open>Sample inputs\<close>

text \<open>
  A scratch directory, scorer settings, a stand-in for the external scorer and a small
  registry, used to run the definitions on concrete inputs.
\<close>

definition sample_evaluator :: evaluator where
  "sample_evaluator = \<lparr>temp_dir = ''/tmp/cityscapes_eval_0'', files = Map.empty, trace = []\<rparr>"

definition sample_args :: args where
  "sample_args = \<lparr>predictionPath = [], predictionWalk = Some ''walk'', JSONOutput = True,
     colorized = True, gtInstancesFile = None, span_window = None\<rparr>"

definition sample_getPrediction :: "args \<Rightarrow> string \<Rightarrow> py_error + string" where
  "sample_getPrediction a gt =
     Inr (os_path_join (predictionPath a) (splitext_root (os_path_basename gt) @ ''_pred.png''))"

definition sample_getPrediction_instance :: "string \<Rightarrow> args \<Rightarrow> py_error + string" where
  "sample_getPrediction_instance gt a =
     Inr (os_path_join (predictionPath a) (splitext_root (os_path_basename gt) @ ''_pred.txt''))"

definition sample_instance_scorer ::
  "(string \<rightharpoonup> scratch_file) \<Rightarrow> string list \<Rightarrow> string list \<Rightarrow> args \<Rightarrow>
   py_error + (string \<rightharpoonup> (string \<rightharpoonup> real))" where
  "sample_instance_scorer fs preds gts a =
     Inr (map_of [(''averages'', map_of [(''allAp'', 1 / 4), (''allAp50%'', 1 / 2)])])"

definition sample_pixel_scorer ::
  "(string \<rightharpoonup> scratch_file) \<Rightarrow> string list \<Rightarrow> string list \<Rightarrow> args \<Rightarrow>
   py_error + (string \<rightharpoonup> real)" where
  "sample_pixel_scorer fs preds gts a =
     Inr (map_of
       [(''averageScoreClasses'', 1 / 2), (''averageScoreCategories'', 3 / 4),
        (''averageScoreInstClasses'', 1 / 4), (''averageScoreInstCategories'', 1 / 2),
        (''averageScoreClasses_vid5'', 3 / 10), (''averageScoreCategories_vid5'', 6 / 10),
        (''averageScoreClasses_vid10'', 2 / 10), (''averageScoreCategories_vid10'', 5 / 10),
        (''averageScoreClasses_vid15'', 1 / 10), (''averageScoreCategories_vid15'', 4 / 10)])"

definition viper_cfg :: datasets_cfg where
  "viper_cfg = \<lparr>dataset_type = ''viper'', inf_start = 20, skip_interv = 10\<rparr>"

definition cityscapes_cfg :: datasets_cfg where
  "cityscapes_cfg = \<lparr>dataset_type = ''cityscapes'', inf_start = 20, skip_interv = 10\<rparr>"

definition sample_model_cfg :: model_cfg where
  "sample_model_cfg = \<lparr>EXTRA_NECK = ''TemporalNeck'', DEVICE = ''cuda'', WEIGHTS = ''model_final.pth''\<rparr>"

definition sample_ctor :: "model_cfg \<Rightarrow> py_error + string module" where
  "sample_ctor cfg = Inr \<lparr>built = ''neck'', device = ''cpu'', loaded_weights = None\<rparr>"

definition sample_registry :: "string \<rightharpoonup> (model_cfg \<Rightarrow> py_error + string module)" where
  "sample_registry = [''TemporalNeck'' \<mapsto> sample_ctor]"

text \<open>
  Ground-truth listings: the frames 0, 5, ..., 100 of one sequence (in reverse order), a
  sequence whose first frame is frame 15, and one file of the Cityscapes layout.
\<close>

definition frames_0_to_100 :: "string list" where
  "frames_0_to_100 =
     [''gt/001/001_00100.png'', ''gt/001/001_00095.png'', ''gt/001/001_00090.png'',
      ''gt/001/001_00085.png'', ''gt/001/001_00080.png'', ''gt/001/001_00075.png'',
      ''gt/001/001_00070.png'', ''gt/001/001_00065.png'', ''gt/001/001_00060.png'',
      ''gt/001/001_00055.png'', ''gt/001/001_00050.png'', ''gt/001/001_00045.png'',
      ''gt/001/001_00040.png'', ''gt/001/001_00035.png'', ''gt/001/001_00030.png'',
      ''gt/001/001_00025.png'', ''gt/001/001_00020.png'', ''gt/001/001_00015.png'',
      ''gt/001/001_00010.png'', ''gt/001/001_00005.png'', ''gt/001/001_00000.png'']"

definition frames_from_15 :: "string list" where
  "frames_from_15 =
     [''gt/002/002_00015.png'', ''gt/002/002_00025.png'', ''gt/002/002_00035.png'']"

definition cityscapes_listing :: "string list" where
  "cityscapes_listing = [''gt/frankfurt/frankfurt_000000_000294_gtFine_labelIds.png'']"

text \<open>The metrics that the temporal evaluator derives from \<open>sample_pixel_scorer\<close>.\<close>

definition sample_metrics :: metrics where
  "sample_metrics =
     [(''sem_seg'',
       [(''IoU'', 50), (''IoU_sup'', 75), (''VIoU_5'', 30), (''VIoU_sup_5'', 60),
        (''VIoU_10'', 20), (''VIoU_sup_10'', 50), (''VIoU_15'', 10), (''VIoU_sup_15'', 40)]),
      (''sem_seg_Vid'', [(''VIoU_total'', 20), (''VIoU_sup_total'', 50)]),
      (''sem_seg_ImgVid'', [(''ImgVid_IoU_Total'', 55 / 2), (''ImgVid_sup_IoU_Total'', 225 / 4)])]"

section \<open>Rank gating\<close>

text \<open>
  Claim C7. On a worker whose rank is greater than 0, \<^verbatim>\<open>evaluate()\<close> of each of the three
  evaluators returns no result right after the barrier: the barrier is the only effect, so
  the ground truth is not enumerated, the scorer is not called and the scratch directory
  is left as it is.
\<close>

theorem evaluate_other_ranks:
  "rank > 0 \<Longrightarrow>
     CityscapesInstanceEvaluator_evaluate gp1 sc1 a0 listing rank ev = (Inr None, emit Barrier ev)
   \<and> CityscapesSemSegEvaluator_evaluate gp2 sc2 a0 listing rank ev = (Inr None, emit Barrier ev)
   \<and> ViperCityscapesSemSegEvaluator_evaluate gp2 sc3 a0 cfg listing rank ev
       = (Inr None, emit Barrier ev)"
  by (simp add: CityscapesInstanceEvaluator_evaluate_def CityscapesSemSegEvaluator_evaluate_def
      ViperCityscapesSemSegEvaluator_evaluate_def Let_def)

theorem evaluate_other_ranks_witness:
  "(1::nat) > 0
   \<and> CityscapesInstanceEvaluator_evaluate sample_getPrediction_instance sample_instance_scorer
        sample_args [''gt/a/a_1_gtFine_instanceIds.png''] 1 sample_evaluator
       = (Inr None, emit Barrier sample_evaluator)
   \<and> CityscapesSemSegEvaluator_evaluate sample_getPrediction sample_pixel_scorer
        sample_args [''gt/a/a_1_gtFine_instanceIds.png''] 1 sample_evaluator
       = (Inr None, emit Barrier sample_evaluator)
   \<and> ViperCityscapesSemSegEvaluator_evaluate sample_getPrediction sample_pixel_scorer
        sample_args viper_cfg [''gt/a/a_1_gtFine_instanceIds.png''] 1 sample_evaluator
       = (Inr None, emit Barrier sample_evaluator)"
  using evaluate_other_ranks [of 1 sample_getPrediction_instance sample_instance_scorer
      sample_args "[''gt/a/a_1_gtFine_instanceIds.png'']" sample_evaluator
      sample_getPrediction sample_pixel_scorer sample_pixel_scorer viper_cfg]
  by simp

section \<open>The model factory\<close>

text \<open>
  Claim C8. When the name in the configuration is not a key of the registry,
  \<^verbatim>\<open>build_model\<close> raises a key error and calls no constructor. For a registered name
  whose constructor returns an object, \<^verbatim>\<open>build_model\<close> returns that object, placed on the
  configured device; the constructor is called once and the weights of the object are
  those the constructor left.
\<close>

theorem build_model_registry:
  "(EXTRA_NECK cfg \<notin> dom reg \<longrightarrow>
      build_model reg cfg = (Inl (KeyError (EXTRA_NECK cfg)), []))
   \<and> (reg (EXTRA_NECK cfg) = Some ctor \<and> ctor cfg = Inr m \<longrightarrow>
      build_model reg cfg = (Inr (m\<lparr>device := DEVICE cfg\<rparr>), [EXTRA_NECK cfg])
      \<and> device (m\<lparr>device := DEVICE cfg\<rparr>) = DEVICE cfg
      \<and> built (m\<lparr>device := DEVICE cfg\<rparr>) = built m
      \<and> loaded_weights (m\<lparr>device := DEVICE cfg\<rparr>) = loaded_weights m)"
  by (auto simp: build_model_def Registry_get_def Let_def domIff)

theorem build_model_registry_witness:
  "EXTRA_NECK sample_model_cfg \<notin> dom (Map.empty :: string \<rightharpoonup> (model_cfg \<Rightarrow> py_error + string module))
   \<and> build_model (Map.empty :: string \<rightharpoonup> (model_cfg \<Rightarrow> py_error + string module)) sample_model_cfg
       = (Inl (KeyError ''TemporalNeck''), [])
   \<and> sample_registry (EXTRA_NECK sample_model_cfg) = Some sample_ctor
   \<and> sample_ctor sample_model_cfg = Inr \<lparr>built = ''neck'', device = ''cpu'', loaded_weights = None\<rparr>
   \<and> build_model sample_registry sample_model_cfg
       = (Inr \<lparr>built = ''neck'', device = ''cuda'', loaded_weights = None\<rparr>, [''TemporalNeck''])"
  using build_model_registry [of sample_model_cfg Map.empty sample_ctor
      "\<lparr>built = ''neck'', device = ''cpu'', loaded_weights = None\<rparr>"]
    build_model_registry [of sample_model_cfg sample_registry sample_ctor
      "\<lparr>built = ''neck'', device = ''cpu'', loaded_weights = None\<rparr>"]
  by (simp add: sample_model_cfg_def sample_registry_def sample_ctor_def)

section \<open>Facts about the string helpers\<close>

lemma split_ne: "split c s \<noteq> []"
  by (induction s) (auto split: list.splits)

lemma split_no_sep: "c \<notin> set zs \<Longrightarrow> split c zs = [zs]"
  by (induction zs) auto

lemma tl_split_sep: "tl (split c (xs @ c # ys)) \<noteq> []"
  by (induction xs) (auto simp: split_ne split: list.splits)

lemma last_split_append: "c \<notin> set ys \<Longrightarrow> last (split c (xs @ c # ys)) = ys"
proof (induction xs)
  case Nil
  then show ?case by (simp add: split_no_sep)
next
  case (Cons x xs)
  then show ?case
    using split_ne [of c "xs @ c # ys"] tl_split_sep [of c xs ys] by (auto split: list.splits)
qed

lemma hd_split: "hd (split c s) = takeWhile (\<lambda>x. x \<noteq> c) s"
  by (induction s) (auto split: list.splits simp: split_ne)

lemma endswithD: "endswith s sfx \<Longrightarrow> \<exists>pre. s = pre @ sfx"
  unfolding endswith_def by (metis append_take_drop_id)

lemma list_getitem_0: "list_getitem xs 0 = (case xs of [] \<Rightarrow> Inl IndexError | x # _ \<Rightarrow> Inr x)"
  by (cases xs) (auto simp: list_getitem_def)

text \<open>
  Every name that the pattern \<^verbatim>\<open>*_gtFine_labelIds.png\<close> matches has the text
  \<^verbatim>\<open>labelIds\<close> where the temporal evaluator looks for a frame index.
\<close>

lemma py_int_labelIds: "py_int ''labelIds'' = Inl ValueError"
  by (simp add: py_int_def strip_def is_space_def is_digit_def)

lemma frame_index_labelIds:
  assumes "endswith (os_path_basename p) ''_gtFine_labelIds.png''"
  shows "frame_index p = Inl ValueError"
proof -
  from assms obtain pre where b: "last (split (CHR ''/'') p) = pre @ ''_gtFine_labelIds.png''"
    unfolding os_path_basename_def by (auto dest: endswithD)
  have "last (split (CHR ''_'') ((pre @ ''_gtFine'') @ CHR ''_'' # ''labelIds.png''))
          = ''labelIds.png''"
    by (rule last_split_append) simp
  then have "last (split (CHR ''_'') (pre @ ''_gtFine_labelIds.png'')) = ''labelIds.png''"
    by simp
  then show ?thesis
    unfolding frame_index_def b by (simp add: hd_split py_int_labelIds)
qed

section \<open>The temporal evaluator: ground truth\<close>

text \<open>
  With the accumulator bound, a non-zero skip interval and file names that all carry a
  frame index, the loop keeps exactly the files whose index is above the warm-up offset
  and whose remainder modulo the skip interval equals the start index.
\<close>

lemma subsample_bound:
  assumes "k \<noteq> 0" and "\<forall>g \<in> set gs. \<exists>i. frame_index g = Inr i"
  shows "subsample w k s gs (Some acc) =
           Inr (Some (acc @ filter (\<lambda>g. case frame_index g of
                                           Inl e \<Rightarrow> False
                                         | Inr i \<Rightarrow> i > w \<and> i mod k = s) gs))"
  using assms
proof (induction gs arbitrary: acc)
  case Nil
  then show ?case by simp
next
  case (Cons g gs)
  then obtain i where "frame_index g = Inr i" by auto
  with Cons show ?case by simp
qed

text \<open>
  The example of the specification: frames 0, 5, ..., 100, warm-up offset 20 and skip
  interval 10 leave the frames 30, 40, ..., 100.
\<close>

lemma ground_truth_0_to_100:
  "viper_ground_truth viper_cfg frames_0_to_100 =
     Inr [''gt/001/001_00030.png'', ''gt/001/001_00040.png'', ''gt/001/001_00050.png'',
          ''gt/001/001_00060.png'', ''gt/001/001_00070.png'', ''gt/001/001_00080.png'',
          ''gt/001/001_00090.png'', ''gt/001/001_00100.png'']"
  by code_simp

lemma ground_truth_from_15:
  "viper_ground_truth viper_cfg frames_from_15 = Inl AssertionError"
  by code_simp

lemma viper_ground_truth_cityscapes:
  assumes "dataset_type cfg = ''cityscapes''"
  shows "viper_ground_truth cfg listing =
           Inl (if glob listing ''_gtFine_labelIds.png'' = [] then IndexError else ValueError)"
proof (cases "glob listing ''_gtFine_labelIds.png'' = []")
  case True
  with assms show ?thesis
    by (simp add: viper_ground_truth_def list_getitem_0 and_then_def)
next
  case False
  let ?gts = "sort (glob listing ''_gtFine_labelIds.png'')"
  from False have "?gts \<noteq> []" by (metis length_sort length_0_conv)
  then obtain g gs where g: "?gts = g # gs" by (cases ?gts) auto
  then have "g \<in> set ?gts" by simp
  then have "g \<in> set (glob listing ''_gtFine_labelIds.png'')" by simp
  then have "endswith (os_path_basename g) ''_gtFine_labelIds.png''"
    by (auto simp: glob_def Let_def)
  then have "frame_index g = Inl ValueError" by (rule frame_index_labelIds)
  with assms False g show ?thesis
    by (simp add: viper_ground_truth_def list_getitem_0 and_then_def)
qed

text \<open>
  Claim C1. The sequence of \<open>frames_from_15\<close> starts at frame 15. Frame 25 lies above the
  warm-up offset 20 and is congruent to 15 modulo the skip interval 10, so the claim keeps
  it. The code compares the remainder \<open>25 mod 10\<close> with the start index 15 itself, keeps
  no file and fails its assertion.
\<close>

theorem subsample_start_index_not_reduced:
  "fst (ViperCityscapesSemSegEvaluator_evaluate gp sc a0 viper_cfg frames_from_15 0 ev)
     = Inl AssertionError
   \<and> frame_index ''gt/002/002_00015.png'' = Inr 15
   \<and> frame_index ''gt/002/002_00025.png'' = Inr 25
   \<and> inf_start viper_cfg < 25
   \<and> (25 :: int) mod skip_interv viper_cfg = 15 mod skip_interv viper_cfg
   \<and> (25 :: int) mod skip_interv viper_cfg \<noteq> 15"
proof -
  have "fst (ViperCityscapesSemSegEvaluator_evaluate gp sc a0 viper_cfg frames_from_15 0 ev)
          = Inl AssertionError"
    by (simp add: ViperCityscapesSemSegEvaluator_evaluate_def Let_def ground_truth_from_15)
  moreover have "frame_index ''gt/002/002_00015.png'' = Inr 15" by code_simp
  moreover have "frame_index ''gt/002/002_00025.png'' = Inr 25" by code_simp
  ultimately show ?thesis by (simp add: viper_cfg_def)
qed

text \<open>
  Claim C3. An empty ground-truth directory makes the temporal evaluator fail at
  \<^verbatim>\<open>groundTruthImgList[0]\<close> with an index error, before its assertion is reached.
\<close>

theorem viper_evaluate_empty_enumeration:
  "ViperCityscapesSemSegEvaluator_evaluate gp sc a0 cfg [] 0 ev
     = (Inl IndexError, emit Enumerate (emit Barrier ev))"
  by (simp add: ViperCityscapesSemSegEvaluator_evaluate_def Let_def viper_ground_truth_def
      glob_def list_getitem_def and_then_def)

text \<open>
  The sibling evaluators, and the temporal evaluator when the subsampling leaves nothing,
  do fail their assertion.
\<close>

lemma instance_evaluate_no_ground_truth:
  "glob listing ''_gtFine_instanceIds.png'' = [] \<Longrightarrow>
   CityscapesInstanceEvaluator_evaluate gp sc a0 listing 0 ev
     = (Inl AssertionError, emit Enumerate (emit Barrier ev))"
  by (simp add: CityscapesInstanceEvaluator_evaluate_def Let_def)

lemma sem_seg_evaluate_no_ground_truth:
  "glob listing ''_gtFine_labelIds.png'' = [] \<Longrightarrow>
   CityscapesSemSegEvaluator_evaluate gp sc a0 listing 0 ev
     = (Inl AssertionError, emit Enumerate (emit Barrier ev))"
  by (simp add: CityscapesSemSegEvaluator_evaluate_def Let_def)

lemma viper_evaluate_nothing_kept:
  "viper_ground_truth cfg listing = Inl AssertionError \<Longrightarrow>
   ViperCityscapesSemSegEvaluator_evaluate gp sc a0 cfg listing 0 ev
     = (Inl AssertionError, emit Enumerate (emit Barrier ev))"
  by (simp add: ViperCityscapesSemSegEvaluator_evaluate_def Let_def)

text \<open>
  Claim C9, as stated: with the dataset type \<^verbatim>\<open>cityscapes\<close> the evaluator would raise the
  unbound-name error. On a ground-truth file of the Cityscapes layout it raises a value
  error instead.
\<close>

theorem cityscapes_branch_value_error:
  "fst (ViperCityscapesSemSegEvaluator_evaluate sample_getPrediction sample_pixel_scorer
          sample_args cityscapes_cfg cityscapes_listing 0 sample_evaluator)
     \<noteq> Inl UnboundLocalError"
proof -
  have "glob cityscapes_listing ''_gtFine_labelIds.png'' \<noteq> []"
    by (simp add: cityscapes_listing_def glob_def os_path_basename_def endswith_def)
  moreover have "dataset_type cityscapes_cfg = ''cityscapes''"
    by (simp add: cityscapes_cfg_def)
  ultimately show ?thesis
    by (simp add: ViperCityscapesSemSegEvaluator_evaluate_def Let_def
        viper_ground_truth_cityscapes)
qed

text \<open>
  Claim C9, amended. With the dataset type \<^verbatim>\<open>cityscapes\<close> the temporal evaluator never
  completes on the coordinator and never calls the scorer: it raises an index error when
  no ground-truth file matches and otherwise a value error, from reading the frame index
  of the first file. The barrier and the enumeration are its only effects.
\<close>

theorem cityscapes_branch_never_completes:
  assumes "dataset_type cfg = ''cityscapes''"
  shows "ViperCityscapesSemSegEvaluator_evaluate gp sc a0 cfg listing 0 ev =
           (Inl (if glob listing ''_gtFine_labelIds.png'' = [] then IndexError else ValueError),
            emit Enumerate (emit Barrier ev))"
  by (simp add: ViperCityscapesSemSegEvaluator_evaluate_def Let_def
      viper_ground_truth_cityscapes [OF assms])

theorem cityscapes_branch_never_completes_witness:
  "dataset_type cityscapes_cfg = ''cityscapes''
   \<and> ViperCityscapesSemSegEvaluator_evaluate sample_getPrediction sample_pixel_scorer
        sample_args cityscapes_cfg cityscapes_listing 0 sample_evaluator
       = (Inl ValueError, emit Enumerate (emit Barrier sample_evaluator))"
proof -
  have d: "dataset_type cityscapes_cfg = ''cityscapes''"
    by (simp add: cityscapes_cfg_def)
  have g: "glob cityscapes_listing ''_gtFine_labelIds.png'' \<noteq> []"
    by (simp add: cityscapes_listing_def glob_def os_path_basename_def endswith_def)
  show ?thesis
    using cityscapes_branch_never_completes [OF d, of sample_getPrediction sample_pixel_scorer
        sample_args cityscapes_listing sample_evaluator] d g
    by simp
qed

section \<open>The temporal evaluator: composite metrics\<close>

text \<open>Whatever the scorer returns, a metrics mapping that is built has one shape.\<close>

lemma viper_metrics_shape:
  assumes "viper_metrics results = Inr ret"
  shows "\<exists>r1 r2 r3 r4 r5 r6 r7 r8.
      ret = [(''sem_seg'',
           [(''IoU'', 100 * r1), (''IoU_sup'', 100 * r2),
            (''VIoU_5'', 100 * r3), (''VIoU_sup_5'', 100 * r4),
            (''VIoU_10'', 100 * r5), (''VIoU_sup_10'', 100 * r6),
            (''VIoU_15'', 100 * r7), (''VIoU_sup_15'', 100 * r8)]),
          (''sem_seg_Vid'',
           [(''VIoU_total'', (100 * r3 + 100 * r5 + 100 * r7) / 3),
            (''VIoU_sup_total'', (100 * r4 + 100 * r6 + 100 * r8) / 3)]),
          (''sem_seg_ImgVid'',
           [(''ImgVid_IoU_Total'', ((100 * r3 + 100 * r5 + 100 * r7) / 3 * 3 + 100 * r1) / 4),
            (''ImgVid_sup_IoU_Total'',
             ((100 * r4 + 100 * r6 + 100 * r8) / 3 * 3 + 100 * r2) / 4)])]"
  using assms
  by (auto simp: viper_metrics_def and_then_def getitem_def Let_def split: option.splits)

lemma viper_evaluate_metrics:
  assumes "fst (ViperCityscapesSemSegEvaluator_evaluate gp sc a0 cfg listing rank ev)
             = Inr (Some ret)"
  shows "\<exists>results. viper_metrics results = Inr ret"
  using assms
  by (auto simp: ViperCityscapesSemSegEvaluator_evaluate_def Let_def and_then_def
      split: if_splits sum.splits)

text \<open>
  Claim C2. In every metrics mapping that the temporal \<^verbatim>\<open>evaluate()\<close> returns,
  \<^verbatim>\<open>VIoU_total\<close> is \<^verbatim>\<open>(VIoU_5 + VIoU_10 + VIoU_15) / 3\<close> and \<^verbatim>\<open>ImgVid_IoU_Total\<close> is
  \<^verbatim>\<open>(VIoU_total * 3 + IoU) / 4\<close>, and the same holds for the \<^verbatim>\<open>_sup\<close> entries.
\<close>

theorem composite_metric_law:
  assumes "fst (ViperCityscapesSemSegEvaluator_evaluate gp sc a0 cfg listing rank ev)
             = Inr (Some ret)"
  shows "\<exists>iou iou_sup v5 v10 v15 s5 s10 s15 vt st.
      metric ret ''sem_seg'' ''IoU'' = Some iou
    \<and> metric ret ''sem_seg'' ''VIoU_5'' = Some v5
    \<and> metric ret ''sem_seg'' ''VIoU_10'' = Some v10
    \<and> metric ret ''sem_seg'' ''VIoU_15'' = Some v15
    \<and> metric ret ''sem_seg_Vid'' ''VIoU_total'' = Some vt
    \<and> vt = (v5 + v10 + v15) / 3
    \<and> metric ret ''sem_seg_ImgVid'' ''ImgVid_IoU_Total'' = Some ((vt * 3 + iou) / 4)
    \<and> metric ret ''sem_seg'' ''IoU_sup'' = Some iou_sup
    \<and> metric ret ''sem_seg'' ''VIoU_sup_5'' = Some s5
    \<and> metric ret ''sem_seg'' ''VIoU_sup_10'' = Some s10
    \<and> metric ret ''sem_seg'' ''VIoU_sup_15'' = Some s15
    \<and> metric ret ''sem_seg_Vid'' ''VIoU_sup_total'' = Some st
    \<and> st = (s5 + s10 + s15) / 3
    \<and> metric ret ''sem_seg_ImgVid'' ''ImgVid_sup_IoU_Total'' = Some ((st * 3 + iou_sup) / 4)"
proof -
  from viper_evaluate_metrics [OF assms] obtain results where
    "viper_metrics results = Inr ret" ..
  from viper_metrics_shape [OF this] obtain r1 r2 r3 r4 r5 r6 r7 r8 where
    ret: "ret = [(''sem_seg'',
           [(''IoU'', 100 * r1), (''IoU_sup'', 100 * r2),
            (''VIoU_5'', 100 * r3), (''VIoU_sup_5'', 100 * r4),
            (''VIoU_10'', 100 * r5), (''VIoU_sup_10'', 100 * r6),
            (''VIoU_15'', 100 * r7), (''VIoU_sup_15'', 100 * r8)]),
          (''sem_seg_Vid'',
           [(''VIoU_total'', (100 * r3 + 100 * r5 + 100 * r7) / 3),
            (''VIoU_sup_total'', (100 * r4 + 100 * r6 + 100 * r8) / 3)]),
          (''sem_seg_ImgVid'',
           [(''ImgVid_IoU_Total'', ((100 * r3 + 100 * r5 + 100 * r7) / 3 * 3 + 100 * r1) / 4),
            (''ImgVid_sup_IoU_Total'',
             ((100 * r4 + 100 * r6 + 100 * r8) / 3 * 3 + 100 * r2) / 4)])]"
    by blast
  show ?thesis
    unfolding ret
    apply (rule exI [of _ "100 * r1"], rule exI [of _ "100 * r2"])
    apply (rule exI [of _ "100 * r3"], rule exI [of _ "100 * r5"], rule exI [of _ "100 * r7"])
    apply (rule exI [of _ "100 * r4"], rule exI [of _ "100 * r6"], rule exI [of _ "100 * r8"])
    apply (rule exI [of _ "(100 * r3 + 100 * r5 + 100 * r7) / 3"])
    apply (rule exI [of _ "(100 * r4 + 100 * r6 + 100 * r8) / 3"])
    apply (simp add: metric_def)
    done
qed

text \<open>The evaluator does return on the sample sequence.\<close>

lemma prediction_list_total:
  "(\<And>g. \<exists>p. gp g = Inr p) \<Longrightarrow> \<exists>ps. prediction_list gp gs = Inr ps"
proof (induction gs)
  case Nil
  then show ?case by simp
next
  case (Cons g gs)
  then obtain ps where "prediction_list gp gs = Inr ps" by blast
  moreover from Cons.prems obtain p where "gp g = Inr p" by blast
  ultimately show ?case by (simp add: and_then_def)
qed

lemma sample_viper_metrics:
  "and_then (sample_pixel_scorer fs preds gts a) viper_metrics = Inr sample_metrics"
  by (simp add: sample_pixel_scorer_def viper_metrics_def and_then_def getitem_def Let_def
      sample_metrics_def)

lemma sample_run:
  "fst (ViperCityscapesSemSegEvaluator_evaluate sample_getPrediction sample_pixel_scorer
         sample_args viper_cfg frames_0_to_100 0 sample_evaluator) = Inr (Some sample_metrics)"
proof -
  obtain ps where "prediction_list (sample_getPrediction
       (sample_args\<lparr>predictionPath := temp_dir sample_evaluator, predictionWalk := None,
                      JSONOutput := False, colorized := False, span_window := Some 5\<rparr>))
     [''gt/001/001_00030.png'', ''gt/001/001_00040.png'', ''gt/001/001_00050.png'',
      ''gt/001/001_00060.png'', ''gt/001/001_00070.png'', ''gt/001/001_00080.png'',
      ''gt/001/001_00090.png'', ''gt/001/001_00100.png''] = Inr ps"
    using prediction_list_total [of "sample_getPrediction _"]
    by (metis sample_getPrediction_def)
  then show ?thesis
    by (simp add: ViperCityscapesSemSegEvaluator_evaluate_def Let_def ground_truth_0_to_100
        sample_viper_metrics)
qed

theorem composite_metric_law_witness:
  "fst (ViperCityscapesSemSegEvaluator_evaluate sample_getPrediction sample_pixel_scorer
         sample_args viper_cfg frames_0_to_100 0 sample_evaluator) = Inr (Some sample_metrics)
   \<and> metric sample_metrics ''sem_seg_Vid'' ''VIoU_total'' = Some ((30 + 20 + 10) / 3)
   \<and> metric sample_metrics ''sem_seg_ImgVid'' ''ImgVid_IoU_Total'' = Some ((20 * 3 + 50) / 4)
   \<and> metric sample_metrics ''sem_seg_Vid'' ''VIoU_sup_total'' = Some ((60 + 50 + 40) / 3)
   \<and> metric sample_metrics ''sem_seg_ImgVid'' ''ImgVid_sup_IoU_Total''
       = Some ((50 * 3 + 75) / 4)"
  using composite_metric_law [OF sample_run] sample_run
  by (simp add: metric_def sample_metrics_def)

end
